theory Spec2Isabelle
  imports Main
begin

section \<open>JSON values and the JavaScript operators the handler applies to them\<close>

text \<open>
  The request body is whatever \<^verbatim>\<open>req.json()\<close> yields: any JSON value, not only the
  shape the \<^verbatim>\<open>FeedbackPayload\<close> interface declares (TypeScript types are erased at run time).
  A JavaScript string is a sequence of UTF-16 code units and \<^verbatim>\<open>.length\<close> counts them; here
  a string is a \<open>char list\<close> with one element per code unit, the alphabet being the code
  units U+0000..U+00FF. Numbers are restricted to integers: the handler only tests a number
  for being zero and compares it with 5000. An object is the association list of its own
  properties; a property read returns the first binding of the key.
\<close>

datatype json =
    JNull
  | JBool bool
  | JNum int
  | JStr string
  | JArr "json list"
  | JObj "(string \<times> json) list"

text \<open>The result of a property read is \<open>None\<close> for \<^verbatim>\<open>undefined\<close>.\<close>

type_synonym jsval = "json option"

datatype js_exception = TypeError | SyntaxError

text \<open>
  \<^verbatim>\<open>v.k\<close> for a non-null value \<open>v\<close> and a key \<open>k\<close> that no prototype defines
  (\<^verbatim>\<open>type\<close>, \<^verbatim>\<open>message\<close>, \<^verbatim>\<open>userId\<close>, \<^verbatim>\<open>metadata\<close>): an own property of an object,
  \<^verbatim>\<open>undefined\<close> on every other value. On \<^verbatim>\<open>null\<close> the read throws; the caller handles that.
\<close>

fun get_prop :: "json \<Rightarrow> string \<Rightarrow> jsval" where
  "get_prop (JObj kvs) k = map_of kvs k"
| "get_prop _ k = None"

text \<open>JavaScript truthiness, as used by \<^verbatim>\<open>!x\<close> and \<^verbatim>\<open>x || y\<close>.\<close>

fun truthy :: "jsval \<Rightarrow> bool" where
  "truthy None = False"
| "truthy (Some JNull) = False"
| "truthy (Some (JBool b)) = b"
| "truthy (Some (JNum n)) = (n \<noteq> 0)"
| "truthy (Some (JStr s)) = (s \<noteq> [])"
| "truthy (Some (JArr xs)) = True"
| "truthy (Some (JObj kvs)) = True"

text \<open>\<^verbatim>\<open>x || null\<close> and \<^verbatim>\<open>x || {}\<close>: the left operand when truthy, else the right one.\<close>

definition or_else :: "jsval \<Rightarrow> json \<Rightarrow> json" where
  "or_else x d = (case x of None \<Rightarrow> d | Some v \<Rightarrow> if truthy (Some v) then v else d)"

text \<open>
  \<^verbatim>\<open>xs.includes(v)\<close> on an array of strings compares with SameValueZero: only a string
  equal to an element, code unit by code unit, is found.
\<close>

fun js_includes :: "string list \<Rightarrow> jsval \<Rightarrow> bool" where
  "js_includes xs (Some (JStr s)) = (s \<in> set xs)"
| "js_includes xs _ = False"

text \<open>
  \<^verbatim>\<open>v.length\<close> for a truthy value: the number of code units of a string, the number of
  elements of an array, the own property \<^verbatim>\<open>length\<close> of an object, \<^verbatim>\<open>undefined\<close> on a
  number or a boolean.
\<close>

fun js_length :: "json \<Rightarrow> jsval" where
  "js_length (JStr s) = Some (JNum (int (length s)))"
| "js_length (JArr xs) = Some (JNum (int (length xs)))"
| "js_length (JObj kvs) = map_of kvs ''length''"
| "js_length _ = None"

text \<open>
  \<^verbatim>\<open>x > 5000\<close>. \<^verbatim>\<open>undefined\<close> converts to NaN, \<^verbatim>\<open>null\<close> to 0, a boolean to 0 or 1, and
  none of them is greater than 5000. A string, an array or an object (which can only be the
  \<^verbatim>\<open>length\<close> property of an object) goes through the language's ToPrimitive and
  string-to-number conversion; that conversion is part of the JavaScript runtime, not of
  this repository, and is taken as the parameter \<open>coerce\<close>, whose result is \<open>None\<close> when
  the conversion throws a TypeError.
\<close>

fun gt_5000 :: "(json \<Rightarrow> bool option) \<Rightarrow> jsval \<Rightarrow> bool option" where
  "gt_5000 coerce None = Some False"
| "gt_5000 coerce (Some JNull) = Some False"
| "gt_5000 coerce (Some (JBool b)) = Some False"
| "gt_5000 coerce (Some (JNum n)) = Some (n > 5000)"
| "gt_5000 coerce (Some v) = coerce v"

subsection \<open>String operations\<close>

text \<open>\<^verbatim>\<open>s.startsWith(p)\<close>.\<close>

definition startsWith :: "string \<Rightarrow> string \<Rightarrow> bool" where
  "startsWith s p = (take (length p) s = p)"

text \<open>
  \<^verbatim>\<open>s.replace(pat, rep)\<close> with a string pattern: the first occurrence of \<open>pat\<close> is
  replaced (\<open>rep\<close> contains no \<^verbatim>\<open>$\<close> pattern in the source: it is the empty string).
\<close>

fun replace :: "string \<Rightarrow> string \<Rightarrow> string \<Rightarrow> string" where
  "replace pat rep [] = (if pat = [] then rep else [])"
| "replace pat rep (c # cs) =
     (if startsWith (c # cs) pat then rep @ drop (length pat) (c # cs)
      else c # replace pat rep cs)"

text \<open>
  The code units \<^verbatim>\<open>trim()\<close> removes, among U+0000..U+00FF: tab, line feed, vertical tab,
  form feed, carriage return, space and no-break space.
\<close>

definition is_ws :: "char \<Rightarrow> bool" where
  "is_ws c = (of_char c \<in> set [9, 10, 11, 12, 13, 32, 160 :: nat])"

definition trim :: "string \<Rightarrow> string" where
  "trim s = rev (dropWhile is_ws (rev (dropWhile is_ws s)))"

text \<open>\<^verbatim>\<open>xs.join(sep)\<close> on an array of strings.\<close>

fun join :: "string \<Rightarrow> string list \<Rightarrow> string" where
  "join sep [] = []"
| "join sep [x] = x"
| "join sep (x # y # ys) = x @ sep @ join sep (y # ys)"

section \<open>The store\<close>

text \<open>
  The tables \<^verbatim>\<open>api_keys\<close> and \<^verbatim>\<open>feedbacks\<close> of the migration, one record per row.
  Identifiers (UUIDs) are strings, timestamps are natural numbers. \<open>fb_external_user_id\<close>
  and \<open>fb_metadata\<close> hold the JavaScript value the handler hands to the store, \<open>JNull\<close>
  being SQL \<^verbatim>\<open>NULL\<close>.
\<close>

record api_key =
  ak_id :: string
  ak_user_id :: string
  ak_key :: string
  ak_name :: string
  ak_created_at :: nat
  ak_is_active :: bool

record feedback =
  fb_id :: string
  fb_api_key_id :: string
  fb_user_id :: string
  fb_external_user_id :: json
  fb_type :: string
  fb_message :: string
  fb_metadata :: json
  fb_created_at :: nat

record database =
  api_keys :: "api_key list"
  feedbacks :: "feedback list"

text \<open>
  The SQL function \<^verbatim>\<open>get_user_id_from_api_key\<close>:
  \<^verbatim>\<open>SELECT ak.user_id, ak.id FROM api_keys ak WHERE ak.key = api_key AND ak.is_active = true\<close>.
\<close>

definition get_user_id_from_api_key :: "api_key list \<Rightarrow> string \<Rightarrow> (string \<times> string) list" where
  "get_user_id_from_api_key keys api_key =
     map (\<lambda>ak. (ak_user_id ak, ak_id ak))
         (filter (\<lambda>ak. ak_key ak = api_key \<and> ak_is_active ak) keys)"

section \<open>The ingestion endpoint\<close>

text \<open>
  What one request meets outside the handler's own code: whether the store reports an
  error for the key lookup (\<^verbatim>\<open>keyError\<close>) or for the insert (\<^verbatim>\<open>insertError\<close>), the
  column defaults \<^verbatim>\<open>gen_random_uuid()\<close> and \<^verbatim>\<open>now()\<close> of the new row, and the runtime's
  coercion in \<^verbatim>\<open>x > 5000\<close>. The environment variables read with \<^verbatim>\<open>Deno.env.get(...)!\<close> are
  taken to be set, as the source's non-null assertions do.
\<close>

record env =
  rpc_error :: bool
  insert_error :: bool
  gen_random_uuid :: string
  now :: nat
  coerce :: "json \<Rightarrow> bool option"

record request =
  req_method :: string
  authorization :: "string option"
  json_body :: "json option"

text \<open>
  \<open>authorization\<close> is \<^verbatim>\<open>req.headers.get('Authorization')\<close> (\<open>None\<close> for \<^verbatim>\<open>null\<close>);
  \<open>json_body\<close> is the value \<^verbatim>\<open>req.json()\<close> resolves to, \<open>None\<close> when it rejects.
\<close>

record receipt =
  r_id :: string
  r_type :: string
  r_message :: string
  r_created_at :: nat

datatype resp_body =
    NoBody
  | ErrorBody string
  | SuccessBody receipt

record response =
  status :: nat
  headers :: "(string \<times> string) list"
  rbody :: resp_body

definition corsHeaders :: "(string \<times> string) list" where
  "corsHeaders =
     [(''Access-Control-Allow-Origin'', ''*''),
      (''Access-Control-Allow-Headers'', ''authorization, x-client-info, apikey, content-type'')]"

definition json_headers :: "(string \<times> string) list" where
  "json_headers = corsHeaders @ [(''Content-Type'', ''application/json'')]"

definition error_response :: "nat \<Rightarrow> string \<Rightarrow> response" where
  "error_response st msg = \<lparr>status = st, headers = json_headers, rbody = ErrorBody msg\<rparr>"

definition validTypes :: "string list" where
  "validTypes = [''bug'', ''suggestion'', ''praise'', ''other'']"

text \<open>
  The insert and what follows it (lines 94-128): \<open>new_row\<close> is the object given to
  \<^verbatim>\<open>insert\<close>, completed by the column defaults \<^verbatim>\<open>id\<close> and \<^verbatim>\<open>created_at\<close>; it is built from
  the resolved credential and the body. \<^verbatim>\<open>body.message.trim()\<close> throws a TypeError when the message is
  not a string (no other value has a callable \<^verbatim>\<open>trim\<close>), and this happens while the
  argument of \<^verbatim>\<open>insert\<close> is evaluated, before the store is called. The type has passed
  \<^verbatim>\<open>validTypes.includes\<close> and is therefore a string (lemma \<open>js_includes_string\<close>).
\<close>

definition new_row :: "env \<Rightarrow> string \<Rightarrow> string \<Rightarrow> json \<Rightarrow> string \<Rightarrow> string \<Rightarrow> feedback" where
  "new_row e user_id api_key_id body t m =
     \<lparr>fb_id = gen_random_uuid e,
      fb_api_key_id = api_key_id,
      fb_user_id = user_id,
      fb_external_user_id = or_else (get_prop body ''userId'') JNull,
      fb_type = t,
      fb_message = trim m,
      fb_metadata = or_else (get_prop body ''metadata'') (JObj []),
      fb_created_at = now e\<rparr>"

definition insert_feedback ::
  "env \<Rightarrow> database \<Rightarrow> string \<Rightarrow> string \<Rightarrow> json \<Rightarrow> json \<Rightarrow> json
     \<Rightarrow> js_exception + (response \<times> database)" where
  "insert_feedback e db user_id api_key_id body ty message =
     (case (ty, message) of
        (JStr t, JStr m) \<Rightarrow>
          (let row = new_row e user_id api_key_id body t m
           in if insert_error e
              then Inr (error_response 500 ''Failed to save feedback'', db)
              else Inr (\<lparr>status = 201, headers = json_headers,
                         rbody = SuccessBody \<lparr>r_id = fb_id row, r_type = fb_type row,
                                              r_message = fb_message row,
                                              r_created_at = fb_created_at row\<rparr>\<rparr>,
                        db\<lparr>feedbacks := feedbacks db @ [row]\<rparr>))
      | _ \<Rightarrow> Inl TypeError)"

text \<open>
  Validation of the parsed body (lines 68-91), then the insert. Reading a property of
  \<^verbatim>\<open>null\<close> throws a TypeError. Once the two truthiness tests have passed, both
  properties are present, so the last branch of the \<open>case\<close> is never taken.
\<close>

definition validate_and_insert ::
  "env \<Rightarrow> database \<Rightarrow> string \<Rightarrow> string \<Rightarrow> json \<Rightarrow> js_exception + (response \<times> database)" where
  "validate_and_insert e db user_id api_key_id body =
     (if body = JNull then Inl TypeError
      else if \<not> truthy (get_prop body ''type'') \<or> \<not> truthy (get_prop body ''message'')
      then Inr (error_response 400 ''Missing required fields: type and message are required'', db)
      else if \<not> js_includes validTypes (get_prop body ''type'')
      then Inr (error_response 400
                  (''Invalid type. Must be one of: '' @ join '', '' validTypes), db)
      else (case (get_prop body ''type'', get_prop body ''message'') of
              (Some ty, Some message) \<Rightarrow>
                (case gt_5000 (coerce e) (js_length message) of
                   None \<Rightarrow> Inl TypeError
                 | Some True \<Rightarrow>
                     Inr (error_response 400 ''Message too long. Maximum 5000 characters.'', db)
                 | Some False \<Rightarrow> insert_feedback e db user_id api_key_id body ty message)
            | _ \<Rightarrow> Inl TypeError))"

text \<open>The \<^verbatim>\<open>try\<close> block (lines 29-128).\<close>

definition try_block :: "env \<Rightarrow> database \<Rightarrow> request \<Rightarrow> js_exception + (response \<times> database)" where
  "try_block e db req =
     (case authorization req of
        None \<Rightarrow> Inr (error_response 401 ''Missing or invalid API key'', db)
      | Some authHeader \<Rightarrow>
          if authHeader = [] \<or> \<not> startsWith authHeader ''Bearer ''
          then Inr (error_response 401 ''Missing or invalid API key'', db)
          else
            (let apiKey = replace ''Bearer '' [] authHeader in
             if rpc_error e
             then Inr (error_response 401 ''Invalid API key'', db)
             else
               (case get_user_id_from_api_key (api_keys db) apiKey of
                  [] \<Rightarrow> Inr (error_response 401 ''Invalid API key'', db)
                | (user_id, api_key_id) # _ \<Rightarrow>
                    (case json_body req of
                       None \<Rightarrow> Inl SyntaxError
                     | Some body \<Rightarrow> validate_and_insert e db user_id api_key_id body))))"

text \<open>The callback given to \<^verbatim>\<open>Deno.serve\<close> (lines 15-137).\<close>

definition handler :: "env \<Rightarrow> database \<Rightarrow> request \<Rightarrow> response \<times> database" where
  "handler e db req =
     (if req_method req = ''OPTIONS''
      then (\<lparr>status = 200, headers = corsHeaders, rbody = NoBody\<rparr>, db)
      else if req_method req \<noteq> ''POST''
      then (error_response 405 ''Method not allowed'', db)
      else (case try_block e db req of
              Inr r \<Rightarrow> r
            | Inl _ \<Rightarrow> (error_response 500 ''Internal server error'', db)))"

section \<open>Key management on the settings page\<close>

text \<open>
  \<^verbatim>\<open>Settings.tsx\<close> keeps the key it shows in the component state \<^verbatim>\<open>apiKey\<close> and talks to
  the table \<^verbatim>\<open>api_keys\<close> as the signed-in user, under the row-level policies of the
  migration (a user reads, updates and inserts rows whose \<^verbatim>\<open>user_id\<close> is their own).
  \<open>key_env\<close> is what one call of \<^verbatim>\<open>regenerateKey\<close> meets in the store: whether the update
  and the insert report an error, and the column defaults of the inserted row.
\<close>

record key_env =
  update_error :: bool
  key_insert_error :: bool
  new_key_id :: string
  new_key :: string
  new_created_at :: nat

text \<open>
  \<^verbatim>\<open>fetchApiKey\<close> (lines 48-62): \<^verbatim>\<open>.single()\<close> yields a row only when exactly one row
  matches; otherwise \<^verbatim>\<open>data\<close> is null and the state is left as it is.
\<close>

definition fetchApiKey :: "api_key list \<Rightarrow> string option \<Rightarrow> api_key option \<Rightarrow> api_key option" where
  "fetchApiKey keys user apiKey =
     (case user of
        None \<Rightarrow> apiKey
      | Some uid \<Rightarrow>
          (case filter (\<lambda>k. ak_user_id k = uid \<and> ak_is_active k) keys of
             [k] \<Rightarrow> Some k
           | _ \<Rightarrow> apiKey))"

text \<open>
  \<^verbatim>\<open>regenerateKey\<close> (lines 76-109). The result of the update is not inspected by the
  source. The insert is refused by the store when it reports an error or when the new row
  would break the primary key on \<^verbatim>\<open>id\<close> or the \<^verbatim>\<open>UNIQUE\<close> constraint on \<^verbatim>\<open>key\<close>; the source
  then only shows a notice. Returned: the table and the component state.
\<close>

definition regenerateKey ::
  "key_env \<Rightarrow> api_key list \<Rightarrow> string option \<Rightarrow> api_key option \<Rightarrow> api_key list \<times> api_key option" where
  "regenerateKey e keys user apiKey =
     (case (user, apiKey) of
        (Some uid, Some old) \<Rightarrow>
          (let keys1 =
                 (if update_error e then keys
                  else map (\<lambda>k. if ak_id k = ak_id old \<and> ak_user_id k = uid
                                then k\<lparr>ak_is_active := False\<rparr> else k) keys);
               new = \<lparr>ak_id = new_key_id e, ak_user_id = uid, ak_key = new_key e,
                      ak_name = ''Default API Key'', ak_created_at = new_created_at e,
                      ak_is_active = True\<rparr>
           in if key_insert_error e \<or> new_key e \<in> set (map ak_key keys1)
                   \<or> new_key_id e \<in> set (map ak_id keys1)
              then (keys1, Some old)
              else (keys1 @ [new], Some new))
      | _ \<Rightarrow> (keys, apiKey))"

text \<open>The active keys of a tenant.\<close>

definition active_keys :: "api_key list \<Rightarrow> string \<Rightarrow> api_key list" where
  "active_keys keys uid = filter (\<lambda>k. ak_user_id k = uid \<and> ak_is_active k) keys"

section \<open>Concrete data for the evaluations\<close>

text \<open>
  Tenant \<open>T1\<close> with a deactivated key \<open>old456\<close> and the active key \<open>abc123\<close>, a store
  that answers without error, and requests built from a header and a body. None of the
  evaluations below reaches the runtime's coercion, for which \<open>no_coerce\<close> stands.
\<close>

definition no_coerce :: "json \<Rightarrow> bool option" where
  "no_coerce v = None"

definition env_ok :: env where
  "env_ok = \<lparr>rpc_error = False, insert_error = False, gen_random_uuid = ''f1'', now = 1,
             coerce = no_coerce\<rparr>"

definition key_old :: api_key where
  "key_old = \<lparr>ak_id = ''k0'', ak_user_id = ''T1'', ak_key = ''old456'',
              ak_name = ''Default API Key'', ak_created_at = 0, ak_is_active = False\<rparr>"

definition key_T1 :: api_key where
  "key_T1 = \<lparr>ak_id = ''k1'', ak_user_id = ''T1'', ak_key = ''abc123'',
              ak_name = ''Default API Key'', ak_created_at = 1, ak_is_active = True\<rparr>"

definition db0 :: database where
  "db0 = \<lparr>api_keys = [key_old, key_T1], feedbacks = []\<rparr>"

definition post :: "string \<Rightarrow> json \<Rightarrow> request" where
  "post h b = \<lparr>req_method = ''POST'', authorization = Some h, json_body = Some b\<rparr>"

definition payload :: "string \<Rightarrow> json \<Rightarrow> json" where
  "payload ty message = JObj [(''type'', JStr ty), (''message'', message)]"

definition key_env_ok :: key_env where
  "key_env_ok = \<lparr>update_error = False, key_insert_error = False, new_key_id = ''k2'',
                 new_key = ''new789'', new_created_at = 2\<rparr>"

lemmas fixture_defs =
  env_ok_def key_old_def key_T1_def db0_def post_def payload_def no_coerce_def key_env_ok_def

section \<open>Auxiliary facts\<close>

lemma replace_startsWith:
  "startsWith s p \<Longrightarrow> s \<noteq> [] \<Longrightarrow> replace p [] s = drop (length p) s"
  by (cases s) simp_all

lemma replace_bearer: "replace ''Bearer '' [] (''Bearer '' @ tok) = tok"
proof -
  have "replace ''Bearer '' [] (''Bearer '' @ tok) = drop (length ''Bearer '') (''Bearer '' @ tok)"
    by (rule replace_startsWith) (simp_all add: startsWith_def)
  then show ?thesis by simp
qed

lemma js_includes_string:
  "js_includes xs v \<Longrightarrow> \<exists>t. v = Some (JStr t) \<and> t \<in> set xs"
  by (induction xs v rule: js_includes.induct) simp_all

lemma lookup_empty_iff:
  "get_user_id_from_api_key keys tok = [] \<longleftrightarrow>
     \<not> (\<exists>k \<in> set keys. ak_key k = tok \<and> ak_is_active k)"
  by (auto simp: get_user_id_from_api_key_def filter_empty_conv)

lemma lookup_set:
  "set (get_user_id_from_api_key keys tok) =
     {(ak_user_id k, ak_id k) | k. k \<in> set keys \<and> ak_key k = tok \<and> ak_is_active k}"
  by (auto simp: get_user_id_from_api_key_def)

lemma handler_post:
  "req_method req = ''POST'' \<Longrightarrow>
   handler e db req =
     (case try_block e db req of
        Inr r \<Rightarrow> r
      | Inl x \<Rightarrow> (error_response 500 ''Internal server error'', db))"
  by (simp add: handler_def)

lemma try_block_missing:
  "authorization req = None \<Longrightarrow>
   try_block e db req = Inr (error_response 401 ''Missing or invalid API key'', db)"
  by (simp add: try_block_def)

lemma try_block_malformed:
  "authorization req = Some h \<Longrightarrow> \<not> startsWith h ''Bearer '' \<Longrightarrow>
   try_block e db req = Inr (error_response 401 ''Missing or invalid API key'', db)"
  by (simp add: try_block_def)

lemma try_block_unknown:
  assumes "authorization req = Some (''Bearer '' @ tok)"
    and "rpc_error e \<or> get_user_id_from_api_key (api_keys db) tok = []"
  shows "try_block e db req = Inr (error_response 401 ''Invalid API key'', db)"
  using assms replace_bearer [of tok]
  by (auto simp: try_block_def startsWith_def simp del: replace.simps)

lemma try_block_authenticated:
  assumes "authorization req = Some (''Bearer '' @ tok)"
    and "\<not> rpc_error e"
    and "get_user_id_from_api_key (api_keys db) tok = (uid, kid) # rest"
    and "json_body req = Some b"
  shows "try_block e db req = validate_and_insert e db uid kid b"
  using assms replace_bearer [of tok]
  by (simp add: try_block_def startsWith_def del: replace.simps)

lemma insert_feedback_Inr:
  assumes "insert_feedback e db uid kid b ty msg = Inr (r, db')"
  shows "(r = error_response 500 ''Failed to save feedback'' \<and> db' = db) \<or>
         (\<exists>t m. ty = JStr t \<and> msg = JStr m \<and> \<not> insert_error e \<and> status r = 201 \<and>
                db' = db\<lparr>feedbacks := feedbacks db @ [new_row e uid kid b t m]\<rparr>)"
  using assms
  by (auto simp: insert_feedback_def Let_def split: json.splits if_splits)

lemma validate_and_insert_Inr:
  assumes "validate_and_insert e db uid kid b = Inr (r, db')"
  shows "(status r \<in> {400, 500} \<and> db' = db) \<or>
         (\<exists>t m. get_prop b ''type'' = Some (JStr t) \<and> get_prop b ''message'' = Some (JStr m) \<and>
                status r = 201 \<and>
                db' = db\<lparr>feedbacks := feedbacks db @ [new_row e uid kid b t m]\<rparr>)"
  using assms
  apply (simp add: validate_and_insert_def split: if_splits option.splits bool.splits prod.splits)
     apply (auto simp: error_response_def dest!: insert_feedback_Inr)
  done

lemma try_block_Inr:
  assumes "try_block e db req = Inr (r, db')"
  shows "(status r \<in> {400, 401, 500} \<and> db' = db) \<or>
         (\<exists>b uid kid t m. json_body req = Some b \<and>
                get_prop b ''type'' = Some (JStr t) \<and> get_prop b ''message'' = Some (JStr m) \<and>
                status r = 201 \<and>
                db' = db\<lparr>feedbacks := feedbacks db @ [new_row e uid kid b t m]\<rparr>)"
  using assms
  apply (simp add: try_block_def Let_def split: option.splits if_splits list.splits prod.splits)
       apply (auto simp: error_response_def dest!: validate_and_insert_Inr)
  done

lemma handler_effect:
  "(status (fst (handler e db req)) \<in> {200, 400, 401, 405, 500} \<and> snd (handler e db req) = db) \<or>
   (\<exists>b uid kid t m. json_body req = Some b \<and> req_method req = ''POST'' \<and>
        get_prop b ''type'' = Some (JStr t) \<and> get_prop b ''message'' = Some (JStr m) \<and>
        status (fst (handler e db req)) = 201 \<and>
        snd (handler e db req) = db\<lparr>feedbacks := feedbacks db @ [new_row e uid kid b t m]\<rparr>)"
proof (cases "req_method req = ''POST''")
  case False
  then show ?thesis by (simp add: handler_def error_response_def)
next
  case True
  show ?thesis
  proof (cases "try_block e db req")
    case (Inl x)
    then show ?thesis using True by (simp add: handler_post error_response_def)
  next
    case (Inr p)
    obtain r db' where p: "p = (r, db')" by (cases p)
    from try_block_Inr [OF Inr [unfolded p]] show ?thesis
      using True Inr p by (auto simp: handler_post)
  qed
qed

lemma is_ws_space: "is_ws CHR '' ''"
  by (simp add: is_ws_def)

lemma trim_trailing_spaces:
  assumes "\<not> is_ws c"
  shows "trim (c # replicate n CHR '' '') = [c]"
proof -
  have 1: "dropWhile is_ws (c # replicate n CHR '' '') = c # replicate n CHR '' ''"
    using assms by simp
  have "dropWhile is_ws (replicate n CHR '' '' @ [c]) = dropWhile is_ws [c]"
    by (rule dropWhile_append2) (simp add: is_ws_space)
  then have 2: "dropWhile is_ws (replicate n CHR '' '' @ [c]) = [c]"
    using assms by simp
  show ?thesis unfolding trim_def 1 by (simp add: 2)
qed



lemma validate_length:
  assumes "get_prop b ''type'' = Some (JStr t)" and "t \<in> set validTypes"
    and "get_prop b ''message'' = Some m" and "truthy (Some m)"
  shows "validate_and_insert e db uid kid b =
     (case gt_5000 (coerce e) (js_length m) of
        None \<Rightarrow> Inl TypeError
      | Some True \<Rightarrow> Inr (error_response 400 ''Message too long. Maximum 5000 characters.'', db)
      | Some False \<Rightarrow> insert_feedback e db uid kid b (JStr t) m)"
proof -
  have "b \<noteq> JNull" using assms(1) by auto
  moreover have "truthy (Some (JStr t))" using assms(2) by (auto simp: validTypes_def)
  ultimately show ?thesis using assms by (simp add: validate_and_insert_def)
qed


lemma insert_feedback_non_string:
  "\<forall>s. m \<noteq> JStr s \<Longrightarrow> insert_feedback e db uid kid b ty m = Inl TypeError"
  by (cases m; cases ty) (simp_all add: insert_feedback_def)

lemma insert_feedback_ok:
  "\<not> insert_error e \<Longrightarrow>
   insert_feedback e db uid kid b (JStr t) (JStr m) =
     Inr (\<lparr>status = 201, headers = json_headers,
           rbody = SuccessBody \<lparr>r_id = gen_random_uuid e, r_type = t, r_message = trim m,
                                r_created_at = now e\<rparr>\<rparr>,
          db\<lparr>feedbacks := feedbacks db @ [new_row e uid kid b t m]\<rparr>)"
  by (simp add: insert_feedback_def new_row_def)

lemma lookup_db0: "get_user_id_from_api_key (api_keys db0) ''abc123'' = [(''T1'', ''k1'')]"
  by (simp add: get_user_id_from_api_key_def db0_def key_old_def key_T1_def)

lemma handler_db0_authenticated:
  "handler env_ok db0 (post ''Bearer abc123'' b) =
     (case validate_and_insert env_ok db0 ''T1'' ''k1'' b of
        Inr r \<Rightarrow> r
      | Inl x \<Rightarrow> (error_response 500 ''Internal server error'', db0))"
proof -
  have "try_block env_ok db0 (post ''Bearer abc123'' b) = validate_and_insert env_ok db0 ''T1'' ''k1'' b"
    by (rule try_block_authenticated [where tok = "''abc123''" and rest = "[]"])
       (simp_all add: post_def env_ok_def lookup_db0)
  then show ?thesis by (simp add: handler_post post_def)
qed

text \<open>
  When both store calls succeed, the page shows the tenant's only active key and tokens are
  unique in the table, a regeneration leaves the tenant with the new key as its only
  active key, the old row is inactive, and the old token resolves to nothing.
\<close>

lemma regenerateKey_success:
  assumes "\<not> update_error e" and "\<not> key_insert_error e"
    and "new_key e \<notin> set (map ak_key keys)" and "new_key_id e \<notin> set (map ak_id keys)"
    and "old \<in> set keys" and "ak_user_id old = uid"
    and only: "\<forall>k \<in> set keys. ak_user_id k = uid \<and> ak_is_active k \<longrightarrow> ak_id k = ak_id old"
    and uniq: "\<forall>k \<in> set keys. ak_key k = ak_key old \<longrightarrow> ak_id k = ak_id old \<and> ak_user_id k = uid"
  shows "active_keys (fst (regenerateKey e keys (Some uid) (Some old))) uid =
           [\<lparr>ak_id = new_key_id e, ak_user_id = uid, ak_key = new_key e,
             ak_name = ''Default API Key'', ak_created_at = new_created_at e,
             ak_is_active = True\<rparr>]"
    and "get_user_id_from_api_key (fst (regenerateKey e keys (Some uid) (Some old))) (ak_key old) = []"
    and "old\<lparr>ak_is_active := False\<rparr> \<in> set (fst (regenerateKey e keys (Some uid) (Some old)))"
proof -
  define f :: "api_key \<Rightarrow> api_key" where "f = (\<lambda>k. if ak_id k = ak_id old \<and> ak_user_id k = uid
                 then k\<lparr>ak_is_active := False\<rparr> else k)"
  define new where "new = \<lparr>ak_id = new_key_id e, ak_user_id = uid, ak_key = new_key e,
             ak_name = ''Default API Key'', ak_created_at = new_created_at e,
             ak_is_active = True\<rparr>"
  have fk: "\<And>k. ak_key (f k) = ak_key k" and fi: "\<And>k. ak_id (f k) = ak_id k"
    and fu: "\<And>k. ak_user_id (f k) = ak_user_id k"
    by (simp_all add: f_def)
  have k1: "map ak_key (map f keys) = map ak_key keys" by (simp add: fk)
  have k2: "map ak_id (map f keys) = map ak_id keys" by (simp add: fi)
  have "regenerateKey e keys (Some uid) (Some old) =
          (if new_key e \<in> set (map ak_key (map f keys)) \<or> new_key_id e \<in> set (map ak_id (map f keys))
           then (map f keys, Some old) else (map f keys @ [new], Some new))"
    unfolding regenerateKey_def Let_def f_def new_def
    by (simp only: assms(1,2) if_False prod.case option.case simp_thms)
  then have r: "fst (regenerateKey e keys (Some uid) (Some old)) = map f keys @ [new]"
    unfolding k1 k2 using assms(3,4) by simp
  have fa: "\<And>k. k \<in> set keys \<Longrightarrow> ak_user_id k = uid \<Longrightarrow> \<not> ak_is_active (f k)"
    using only by (auto simp: f_def)
  have a: "filter (\<lambda>k. ak_user_id k = uid \<and> ak_is_active k) (map f keys) = []"
    unfolding filter_empty_conv using fa fu by auto
  have fb: "\<And>k. k \<in> set keys \<Longrightarrow> ak_key k = ak_key old \<Longrightarrow> \<not> ak_is_active (f k)"
    using uniq by (auto simp: f_def)
  have b: "filter (\<lambda>k. ak_key k = ak_key old \<and> ak_is_active k) (map f keys) = []"
    unfolding filter_empty_conv using fb fk by auto
  have nk: "new_key e \<noteq> ak_key old" using assms(3,5) by auto
  have fo: "f old = old\<lparr>ak_is_active := False\<rparr>" using assms(6) by (simp add: f_def)
  show "active_keys (fst (regenerateKey e keys (Some uid) (Some old))) uid =
           [\<lparr>ak_id = new_key_id e, ak_user_id = uid, ak_key = new_key e,
             ak_name = ''Default API Key'', ak_created_at = new_created_at e,
             ak_is_active = True\<rparr>]"
    unfolding r active_keys_def filter_append a by (simp add: new_def)
  show "get_user_id_from_api_key (fst (regenerateKey e keys (Some uid) (Some old))) (ak_key old) = []"
    unfolding r get_user_id_from_api_key_def filter_append b using nk by (simp add: new_def)
  show "old\<lparr>ak_is_active := False\<rparr> \<in> set (fst (regenerateKey e keys (Some uid) (Some old)))"
    unfolding r using assms(5) fo by (metis UnI1 image_eqI set_append set_map)
qed

lemmas run_defs =
  handler_def try_block_def validate_and_insert_def insert_feedback_def new_row_def
  error_response_def get_user_id_from_api_key_def startsWith_def trim_def is_ws_def
  or_else_def validTypes_def fixture_defs

section \<open>Claims about the ingestion endpoint\<close>

text \<open>
  C8 (as amended). Every \<^verbatim>\<open>OPTIONS\<close> request is answered with status 200 and an empty body
  (the source builds \<^verbatim>\<open>new Response(null, { headers: corsHeaders })\<close>: a null body, and the
  status the constructor gives when none is passed), carrying the two open CORS headers
  \<^verbatim>\<open>Access-Control-Allow-Origin: *\<close> and
  \<^verbatim>\<open>Access-Control-Allow-Headers: authorization, x-client-info, apikey, content-type\<close>; the
  answer depends neither on the \<^verbatim>\<open>Authorization\<close> header nor on the key table, and the store
  is left as it is. Every request whose method is neither \<^verbatim>\<open>POST\<close> nor \<^verbatim>\<open>OPTIONS\<close> is answered
  with 405, the same CORS headers and the JSON content type, and the store is left as it is.
\<close>

theorem options_preflight_and_method_not_allowed:
  "(req_method req = ''OPTIONS'' \<longrightarrow>
      handler e db req =
        (\<lparr>status = 200,
          headers = [(''Access-Control-Allow-Origin'', ''*''),
                     (''Access-Control-Allow-Headers'',
                      ''authorization, x-client-info, apikey, content-type'')],
          rbody = NoBody\<rparr>, db)) \<and>
   (req_method req \<noteq> ''OPTIONS'' \<and> req_method req \<noteq> ''POST'' \<longrightarrow>
      handler e db req =
        (\<lparr>status = 405,
          headers = [(''Access-Control-Allow-Origin'', ''*''),
                     (''Access-Control-Allow-Headers'',
                      ''authorization, x-client-info, apikey, content-type''),
                     (''Content-Type'', ''application/json'')],
          rbody = ErrorBody ''Method not allowed''\<rparr>, db))"
  by (simp add: handler_def corsHeaders_def json_headers_def error_response_def)

theorem options_preflight_and_method_not_allowed_witness:
  "handler env_ok db0 \<lparr>req_method = ''OPTIONS'', authorization = None, json_body = None\<rparr>
     = (\<lparr>status = 200,
         headers = [(''Access-Control-Allow-Origin'', ''*''),
                    (''Access-Control-Allow-Headers'',
                     ''authorization, x-client-info, apikey, content-type'')],
         rbody = NoBody\<rparr>, db0) \<and>
   handler env_ok db0 \<lparr>req_method = ''GET'', authorization = Some ''Bearer abc123'', json_body = None\<rparr>
     = (\<lparr>status = 405,
         headers = [(''Access-Control-Allow-Origin'', ''*''),
                    (''Access-Control-Allow-Headers'',
                     ''authorization, x-client-info, apikey, content-type''),
                    (''Content-Type'', ''application/json'')],
         rbody = ErrorBody ''Method not allowed''\<rparr>, db0)"
  using options_preflight_and_method_not_allowed
          [of "\<lparr>req_method = ''OPTIONS'', authorization = None, json_body = None\<rparr>" env_ok db0]
        options_preflight_and_method_not_allowed
          [of "\<lparr>req_method = ''GET'', authorization = Some ''Bearer abc123'', json_body = None\<rparr>"
              env_ok db0]
  by simp

text \<open>
  The claim as the spec words it gives the preflight answer the status 204. The source
  passes no status to the \<^verbatim>\<open>Response\<close> constructor, so the answer to an \<^verbatim>\<open>OPTIONS\<close> request
  has status 200.
\<close>

theorem options_status_is_not_204:
  "status (fst (handler env_ok db0
     \<lparr>req_method = ''OPTIONS'', authorization = None, json_body = None\<rparr>)) = 200 \<and>
   status (fst (handler env_ok db0
     \<lparr>req_method = ''OPTIONS'', authorization = None, json_body = None\<rparr>)) \<noteq> 204"
  by (simp add: handler_def)

text \<open>
  C3. A \<^verbatim>\<open>POST\<close> request without an \<^verbatim>\<open>Authorization\<close> header, with a header that does not
  start with \<^verbatim>\<open>Bearer \<close>, or with a bearer token that no active key carries (a deactivated
  key's token, or any token that differs from the stored ones) is answered with 401 and no
  feedback row is created. The lookup returns exactly the rows whose token equals the given
  one and whose active flag is set.
\<close>

theorem unauthenticated_401_no_row:
  assumes "req_method req = ''POST''"
    and "authorization req = None
         \<or> (\<exists>h. authorization req = Some h \<and> \<not> startsWith h ''Bearer '')
         \<or> (\<exists>tok. authorization req = Some (''Bearer '' @ tok)
               \<and> \<not> (\<exists>k \<in> set (api_keys db). ak_key k = tok \<and> ak_is_active k))"
  shows "status (fst (handler e db req)) = 401 \<and> snd (handler e db req) = db \<and>
         set (get_user_id_from_api_key keys t) =
           {(ak_user_id k, ak_id k) | k. k \<in> set keys \<and> ak_key k = t \<and> ak_is_active k}"
proof -
  from assms(2) have "\<exists>msg. try_block e db req = Inr (error_response 401 msg, db)"
  proof (elim disjE exE conjE)
    assume "authorization req = None"
    then show ?thesis using try_block_missing by blast
  next
    fix h assume "authorization req = Some h" "\<not> startsWith h ''Bearer ''"
    then show ?thesis using try_block_malformed by blast
  next
    fix tok assume a: "authorization req = Some (''Bearer '' @ tok)"
      and n: "\<not> (\<exists>k \<in> set (api_keys db). ak_key k = tok \<and> ak_is_active k)"
    from n have "get_user_id_from_api_key (api_keys db) tok = []"
      by (simp only: lookup_empty_iff not_False_eq_True)
    with a show ?thesis using try_block_unknown by blast
  qed
  then obtain msg where "try_block e db req = Inr (error_response 401 msg, db)" ..
  then have "handler e db req = (error_response 401 msg, db)"
    using assms(1) by (simp add: handler_post)
  then show ?thesis by (simp add: error_response_def lookup_set)
qed

theorem unauthenticated_401_no_row_witness:
  "status (fst (handler env_ok db0 (post ''Bearer old456'' (payload ''bug'' (JStr ''hello''))))) = 401 \<and>
   snd (handler env_ok db0 (post ''Bearer old456'' (payload ''bug'' (JStr ''hello'')))) = db0 \<and>
   get_user_id_from_api_key (api_keys db0) ''old456'' = [] \<and>
   get_user_id_from_api_key (api_keys db0) ''abc123'' = [(''T1'', ''k1'')]"
proof -
  have m: "req_method (post ''Bearer old456'' (payload ''bug'' (JStr ''hello''))) = ''POST''"
    by (simp add: post_def)
  have a: "authorization (post ''Bearer old456'' (payload ''bug'' (JStr ''hello''))) = None
         \<or> (\<exists>h. authorization (post ''Bearer old456'' (payload ''bug'' (JStr ''hello''))) = Some h
                \<and> \<not> startsWith h ''Bearer '')
         \<or> (\<exists>tok. authorization (post ''Bearer old456'' (payload ''bug'' (JStr ''hello'')))
                      = Some (''Bearer '' @ tok)
               \<and> \<not> (\<exists>k \<in> set (api_keys db0). ak_key k = tok \<and> ak_is_active k))"
    by (simp add: post_def db0_def key_old_def key_T1_def)
  show ?thesis
    using unauthenticated_401_no_row [OF m a, of env_ok "api_keys db0" "''old456''"]
    by (simp add: get_user_id_from_api_key_def db0_def key_old_def key_T1_def)
qed

text \<open>
  C7. A call that answers 201 has appended exactly one row to the feedback table; a call
  that answers anything else (200 for the preflight, 400, 401, 405, 500) leaves the store
  exactly as it was. No other status is ever produced, so every authentication and
  validation failure has returned before the insert.
\<close>

theorem one_row_iff_201:
  "(status (fst (handler e db req)) = 201 \<longrightarrow>
      (\<exists>row. snd (handler e db req) = db\<lparr>feedbacks := feedbacks db @ [row]\<rparr>)) \<and>
   (status (fst (handler e db req)) \<noteq> 201 \<longrightarrow> snd (handler e db req) = db) \<and>
   status (fst (handler e db req)) \<in> {200, 201, 400, 401, 405, 500}"
  using handler_effect [of e db req] by auto

theorem one_row_iff_201_witness:
  "status (fst (handler env_ok db0 (post ''Bearer abc123'' (payload ''bug'' (JStr ''crashes on save''))))) = 201 \<and>
   length (feedbacks (snd (handler env_ok db0
       (post ''Bearer abc123'' (payload ''bug'' (JStr ''crashes on save'')))))) = 1 \<and>
   status (fst (handler env_ok db0 (post ''Bearer abc123'' (payload ''rant'' (JStr ''x''))))) = 400 \<and>
   snd (handler env_ok db0 (post ''Bearer abc123'' (payload ''rant'' (JStr ''x'')))) = db0"
proof -
  have ok: "status (fst (handler env_ok db0
              (post ''Bearer abc123'' (payload ''bug'' (JStr ''crashes on save''))))) = 201"
    by (simp add: run_defs)
  have bad: "status (fst (handler env_ok db0
              (post ''Bearer abc123'' (payload ''rant'' (JStr ''x''))))) = 400"
    by (simp add: run_defs)
  show ?thesis
    using ok bad
      one_row_iff_201 [of env_ok db0 "post ''Bearer abc123'' (payload ''bug'' (JStr ''crashes on save''))"]
      one_row_iff_201 [of env_ok db0 "post ''Bearer abc123'' (payload ''rant'' (JStr ''x''))"]
    by (auto simp: db0_def)
qed

text \<open>
  C9. Whenever a submission succeeds and the body's \<^verbatim>\<open>userId\<close> is falsy (absent, the
  empty string, \<^verbatim>\<open>null\<close>, \<^verbatim>\<open>0\<close>, \<^verbatim>\<open>false\<close>), the row that was created has
  \<^verbatim>\<open>external_user_id\<close> null: \<^verbatim>\<open>body.userId || null\<close> does not store the value as given.
\<close>

theorem falsy_userId_stored_as_null:
  assumes "json_body req = Some b"
    and "\<not> truthy (get_prop b ''userId'')"
    and "status (fst (handler e db req)) = 201"
  shows "\<exists>row. feedbacks (snd (handler e db req)) = feedbacks db @ [row] \<and>
               fb_external_user_id row = JNull"
  using handler_effect [of e db req] assms
  by (auto simp: new_row_def or_else_def split: option.splits)

theorem falsy_userId_stored_as_null_witness:
  "\<not> truthy (get_prop (JObj [(''userId'', JStr ''''), (''type'', JStr ''bug''),
                               (''message'', JStr ''hi'')]) ''userId'') \<and>
   map fb_external_user_id (feedbacks (snd (handler env_ok db0
      (post ''Bearer abc123'' (JObj [(''userId'', JStr ''''), (''type'', JStr ''bug''),
                                     (''message'', JStr ''hi'')]))))) = [JNull]"
proof -
  let ?b = "JObj [(''userId'', JStr ''''), (''type'', JStr ''bug''), (''message'', JStr ''hi'')]"
  have b: "json_body (post ''Bearer abc123'' ?b) = Some ?b" by (simp add: post_def)
  have f: "\<not> truthy (get_prop ?b ''userId'')" by simp
  have ok: "status (fst (handler env_ok db0 (post ''Bearer abc123'' ?b))) = 201"
    by (simp add: run_defs)
  show ?thesis
    using falsy_userId_stored_as_null [OF b f ok] f by (auto simp: db0_def)
qed

text \<open>
  C1 (as amended). A \<^verbatim>\<open>POST\<close> request whose header is \<^verbatim>\<open>Bearer \<close> followed by the token of
  an active key, whose body has a \<^verbatim>\<open>type\<close> among the four values and a string \<^verbatim>\<open>message\<close>
  that is non-empty after trimming and has at most 5000 code units before trimming, and
  for which the store answers the lookup and the insert without error, creates exactly one
  feedback row. The row's tenant and key identifiers are those of the row the lookup
  resolved (an active key carrying the token), never a value of the body; the message is
  stored trimmed; the metadata is the empty object when the body has none. The answer is
  201 with \<^verbatim>\<open>id\<close>, \<^verbatim>\<open>type\<close>, \<^verbatim>\<open>message\<close> and \<^verbatim>\<open>created_at\<close> of the new row and nothing else.
\<close>

theorem valid_submission_creates_one_row:
  assumes "req_method req = ''POST''"
    and "authorization req = Some (''Bearer '' @ tok)"
    and "\<not> rpc_error e" and "\<not> insert_error e"
    and "get_user_id_from_api_key (api_keys db) tok = (uid, kid) # rest"
    and "json_body req = Some b"
    and "get_prop b ''type'' = Some (JStr t)"
    and "t \<in> set [''bug'', ''suggestion'', ''praise'', ''other'']"
    and "get_prop b ''message'' = Some (JStr m)"
    and "trim m \<noteq> []" and "length m \<le> 5000"
  shows "handler e db req =
           (\<lparr>status = 201, headers = json_headers,
             rbody = SuccessBody \<lparr>r_id = gen_random_uuid e, r_type = t, r_message = trim m,
                                  r_created_at = now e\<rparr>\<rparr>,
            db\<lparr>feedbacks := feedbacks db @
                  [\<lparr>fb_id = gen_random_uuid e, fb_api_key_id = kid, fb_user_id = uid,
                    fb_external_user_id = or_else (get_prop b ''userId'') JNull,
                    fb_type = t, fb_message = trim m,
                    fb_metadata = or_else (get_prop b ''metadata'') (JObj []),
                    fb_created_at = now e\<rparr>]\<rparr>) \<and>
         (\<exists>k \<in> set (api_keys db). ak_key k = tok \<and> ak_is_active k \<and>
                                  ak_user_id k = uid \<and> ak_id k = kid) \<and>
         (get_prop b ''metadata'' = None \<longrightarrow>
            or_else (get_prop b ''metadata'') (JObj []) = JObj [])"
proof -
  have tb: "try_block e db req = validate_and_insert e db uid kid b"
    by (rule try_block_authenticated [OF assms(2,3,5,6)])
  have ne: "m \<noteq> []" using assms(10) by (auto simp: trim_def)
  have tv: "t \<in> set validTypes" using assms(8) by (simp add: validTypes_def)
  have "validate_and_insert e db uid kid b = insert_feedback e db uid kid b (JStr t) (JStr m)"
    using assms(11) ne by (subst validate_length [OF assms(7) tv assms(9)]) simp_all
  then have "handler e db req =
           (\<lparr>status = 201, headers = json_headers,
             rbody = SuccessBody \<lparr>r_id = gen_random_uuid e, r_type = t, r_message = trim m,
                                  r_created_at = now e\<rparr>\<rparr>,
            db\<lparr>feedbacks := feedbacks db @ [new_row e uid kid b t m]\<rparr>)"
    using assms(1,4) tb by (simp add: handler_post insert_feedback_ok)
  moreover have "(uid, kid) \<in> set (get_user_id_from_api_key (api_keys db) tok)"
    using assms(5) by simp
  then have "\<exists>k \<in> set (api_keys db). ak_key k = tok \<and> ak_is_active k \<and>
                                  ak_user_id k = uid \<and> ak_id k = kid"
    unfolding lookup_set by auto
  ultimately show ?thesis by (simp add: new_row_def or_else_def)
qed

theorem valid_submission_creates_one_row_witness:
  "handler env_ok db0 (post ''Bearer abc123'' (payload ''bug'' (JStr ''crashes on save''))) =
     (\<lparr>status = 201, headers = json_headers,
       rbody = SuccessBody \<lparr>r_id = ''f1'', r_type = ''bug'', r_message = ''crashes on save'',
                            r_created_at = 1\<rparr>\<rparr>,
      db0\<lparr>feedbacks :=
            [\<lparr>fb_id = ''f1'', fb_api_key_id = ''k1'', fb_user_id = ''T1'',
              fb_external_user_id = JNull, fb_type = ''bug'', fb_message = ''crashes on save'',
              fb_metadata = JObj [], fb_created_at = 1\<rparr>]\<rparr>)"
proof -
  let ?b = "payload ''bug'' (JStr ''crashes on save'')"
  let ?r = "post ''Bearer abc123'' ?b"
  have m: "req_method ?r = ''POST''"
    and a: "authorization ?r = Some (''Bearer '' @ ''abc123'')"
    and j: "json_body ?r = Some ?b"
    by (simp_all add: post_def)
  have r: "\<not> rpc_error env_ok" and i: "\<not> insert_error env_ok" by (simp_all add: env_ok_def)
  have l: "get_user_id_from_api_key (api_keys db0) ''abc123'' = (''T1'', ''k1'') # []"
    by (simp add: get_user_id_from_api_key_def db0_def key_old_def key_T1_def)
  have ty: "get_prop ?b ''type'' = Some (JStr ''bug'')"
    and ms: "get_prop ?b ''message'' = Some (JStr ''crashes on save'')"
    by (simp_all add: payload_def)
  have tv: "''bug'' \<in> set [''bug'', ''suggestion'', ''praise'', ''other'']" by simp
  have tr: "trim ''crashes on save'' \<noteq> []" by (simp add: trim_def is_ws_def)
  have ln: "length ''crashes on save'' \<le> 5000" by simp
  show ?thesis
    using valid_submission_creates_one_row [OF m a r i l j ty tv ms tr ln]
    by (simp add: env_ok_def db0_def payload_def or_else_def trim_def is_ws_def)
qed

text \<open>
  The claim as the spec words it bounds the length of the trimmed message. The source
  compares \<^verbatim>\<open>body.message.length\<close> before trimming: a message of one letter followed by
  5000 spaces is valid in the spec's sense (its trimmed value is one letter) and is
  answered with 400, no row being created.
\<close>

theorem long_raw_message_rejected:
  "trim (CHR ''a'' # replicate 5000 CHR '' '') = ''a'' \<and>
   handler env_ok db0
     (post ''Bearer abc123'' (payload ''bug'' (JStr (CHR ''a'' # replicate 5000 CHR '' ''))))
   = (error_response 400 ''Message too long. Maximum 5000 characters.'', db0)"
proof -
  have t: "trim (CHR ''a'' # replicate 5000 CHR '' '') = ''a''"
    by (rule trim_trailing_spaces) (simp add: is_ws_def)
  have "validate_and_insert env_ok db0 ''T1'' ''k1''
          (payload ''bug'' (JStr (CHR ''a'' # replicate 5000 CHR '' '')))
        = Inr (error_response 400 ''Message too long. Maximum 5000 characters.'', db0)"
    by (subst validate_length [where t = "''bug''" and m = "JStr (CHR ''a'' # replicate 5000 CHR '' '')"])
       (simp_all add: payload_def validTypes_def)
  then show ?thesis using t by (simp add: handler_db0_authenticated)
qed

text \<open>
  C2. The claim: the message is validated on its trimmed value, so that a message that is
  empty after trimming is refused with 400. The source tests \<^verbatim>\<open>!body.message\<close> on the
  untrimmed value and trims only when it builds the row: a message of three spaces passes
  the required-field test, is answered with 201, and is stored as the empty string.
\<close>

theorem whitespace_message_accepted:
  "trim ''   '' = [] \<and>
   handler env_ok db0 (post ''Bearer abc123'' (payload ''praise'' (JStr ''   '')))
     = (\<lparr>status = 201, headers = json_headers,
         rbody = SuccessBody \<lparr>r_id = ''f1'', r_type = ''praise'', r_message = [],
                              r_created_at = 1\<rparr>\<rparr>,
        db0\<lparr>feedbacks :=
              [\<lparr>fb_id = ''f1'', fb_api_key_id = ''k1'', fb_user_id = ''T1'',
                fb_external_user_id = JNull, fb_type = ''praise'', fb_message = [],
                fb_metadata = JObj [], fb_created_at = 1\<rparr>]\<rparr>)"
  by (simp add: run_defs)

text \<open>
  C5 (as amended). A malformed or missing \<^verbatim>\<open>Authorization\<close> header and a well-formed
  header with an unknown or inactive token are both answered with status 401, the same
  headers and a JSON error body, and neither touches the store; the error messages differ
  (\<^verbatim>\<open>Missing or invalid API key\<close> against \<^verbatim>\<open>Invalid API key\<close>), so the body tells the two
  cases apart.
\<close>

theorem malformed_and_unknown_share_status:
  assumes "req_method r1 = ''POST''" and "req_method r2 = ''POST''"
    and "authorization r1 = None \<or> (\<exists>h. authorization r1 = Some h \<and> \<not> startsWith h ''Bearer '')"
    and "authorization r2 = Some (''Bearer '' @ tok)"
    and "\<not> (\<exists>k \<in> set (api_keys db). ak_key k = tok \<and> ak_is_active k)"
  shows "handler e db r1 = (error_response 401 ''Missing or invalid API key'', db) \<and>
         handler e db r2 = (error_response 401 ''Invalid API key'', db) \<and>
         status (fst (handler e db r1)) = status (fst (handler e db r2)) \<and>
         headers (fst (handler e db r1)) = headers (fst (handler e db r2)) \<and>
         rbody (fst (handler e db r1)) \<noteq> rbody (fst (handler e db r2))"
proof -
  have 1: "try_block e db r1 = Inr (error_response 401 ''Missing or invalid API key'', db)"
    using assms(3) try_block_missing try_block_malformed by blast
  have "get_user_id_from_api_key (api_keys db) tok = []"
    using assms(5) by (simp only: lookup_empty_iff not_False_eq_True)
  then have 2: "try_block e db r2 = Inr (error_response 401 ''Invalid API key'', db)"
    using assms(4) try_block_unknown by blast
  show ?thesis
    using 1 2 assms(1,2) by (simp add: handler_post error_response_def)
qed

theorem malformed_and_unknown_share_status_witness:
  "handler env_ok db0 (post ''Basic abc123'' (payload ''bug'' (JStr ''hello'')))
     = (error_response 401 ''Missing or invalid API key'', db0) \<and>
   handler env_ok db0 (post ''Bearer old456'' (payload ''bug'' (JStr ''hello'')))
     = (error_response 401 ''Invalid API key'', db0)"
proof -
  let ?r1 = "post ''Basic abc123'' (payload ''bug'' (JStr ''hello''))"
  let ?r2 = "post ''Bearer old456'' (payload ''bug'' (JStr ''hello''))"
  have m1: "req_method ?r1 = ''POST''" and m2: "req_method ?r2 = ''POST''"
    by (simp_all add: post_def)
  have a1: "authorization ?r1 = None
            \<or> (\<exists>h. authorization ?r1 = Some h \<and> \<not> startsWith h ''Bearer '')"
    by (simp add: post_def startsWith_def)
  have a2: "authorization ?r2 = Some (''Bearer '' @ ''old456'')"
    by (simp add: post_def)
  have n: "\<not> (\<exists>k \<in> set (api_keys db0). ak_key k = ''old456'' \<and> ak_is_active k)"
    by (simp add: db0_def key_old_def key_T1_def)
  show ?thesis
    using malformed_and_unknown_share_status [OF m1 m2 a1 a2 n, of env_ok] by simp
qed

text \<open>
  The claim as the spec words it says that the response does not reveal which case
  occurred. Two concrete requests, one with a \<^verbatim>\<open>Basic\<close> header and one with an unknown
  bearer token, get different bodies.
\<close>

theorem malformed_vs_unknown_distinguishable:
  "fst (handler env_ok db0 (post ''Basic abc123'' (payload ''bug'' (JStr ''hello''))))
     = error_response 401 ''Missing or invalid API key'' \<and>
   fst (handler env_ok db0 (post ''Bearer nosuchkey'' (payload ''bug'' (JStr ''hello''))))
     = error_response 401 ''Invalid API key'' \<and>
   rbody (fst (handler env_ok db0 (post ''Basic abc123'' (payload ''bug'' (JStr ''hello'')))))
     \<noteq> rbody (fst (handler env_ok db0 (post ''Bearer nosuchkey'' (payload ''bug'' (JStr ''hello'')))))"
  by (simp add: run_defs)




text \<open>
  C10 (as amended). For an authenticated request with a valid \<^verbatim>\<open>type\<close> whose \<^verbatim>\<open>message\<close>
  is truthy and not a string, no row is created and the answer is 500 (the TypeError of
  \<^verbatim>\<open>body.message.trim()\<close>, or of the coercion in the comparison, caught by the handler),
  unless the value's \<^verbatim>\<open>length\<close> compares greater than 5000, in which case the answer is
  the 400 of the length rule. A number, \<^verbatim>\<open>true\<close> and an array of at most 5000 elements
  always give 500.
\<close>

theorem non_string_message_outcome:
  assumes "req_method req = ''POST''"
    and "authorization req = Some (''Bearer '' @ tok)"
    and "\<not> rpc_error e"
    and "get_user_id_from_api_key (api_keys db) tok \<noteq> []"
    and "json_body req = Some b"
    and "get_prop b ''type'' = Some (JStr t)"
    and "t \<in> set [''bug'', ''suggestion'', ''praise'', ''other'']"
    and "get_prop b ''message'' = Some m" and "truthy (Some m)"
    and "\<forall>s. m \<noteq> JStr s"
  shows "handler e db req =
           (if gt_5000 (coerce e) (js_length m) = Some True
            then error_response 400 ''Message too long. Maximum 5000 characters.''
            else error_response 500 ''Internal server error'', db) \<and>
         ((\<exists>n. m = JNum n) \<or> (\<exists>v. m = JBool v) \<or> (\<exists>xs. m = JArr xs \<and> length xs \<le> 5000) \<longrightarrow>
            handler e db req = (error_response 500 ''Internal server error'', db))"
proof -
  obtain uid kid rest where l: "get_user_id_from_api_key (api_keys db) tok = (uid, kid) # rest"
    using assms(4) by (cases "get_user_id_from_api_key (api_keys db) tok") auto
  have tb: "try_block e db req = validate_and_insert e db uid kid b"
    by (rule try_block_authenticated [OF assms(2,3) l assms(5)])
  have tv: "t \<in> set validTypes" using assms(7) by (simp add: validTypes_def)
  have v: "validate_and_insert e db uid kid b =
     (case gt_5000 (coerce e) (js_length m) of
        None \<Rightarrow> Inl TypeError
      | Some True \<Rightarrow> Inr (error_response 400 ''Message too long. Maximum 5000 characters.'', db)
      | Some False \<Rightarrow> Inl TypeError)"
    by (subst validate_length [OF assms(6) tv assms(8,9)])
       (simp add: insert_feedback_non_string [OF assms(10)] split: option.splits bool.splits)
  have h: "handler e db req =
           (if gt_5000 (coerce e) (js_length m) = Some True
            then error_response 400 ''Message too long. Maximum 5000 characters.''
            else error_response 500 ''Internal server error'', db)"
    using assms(1) tb v by (simp add: handler_post split: option.splits bool.splits)
  have "(\<exists>n. m = JNum n) \<or> (\<exists>v. m = JBool v) \<or> (\<exists>xs. m = JArr xs \<and> length xs \<le> 5000) \<Longrightarrow>
        gt_5000 (coerce e) (js_length m) \<noteq> Some True"
    by auto
  with h show ?thesis by auto
qed

theorem non_string_message_outcome_witness:
  "handler env_ok db0 (post ''Bearer abc123'' (payload ''bug'' (JNum 5)))
     = (error_response 500 ''Internal server error'', db0)"
proof -
  let ?b = "payload ''bug'' (JNum 5)"
  let ?r = "post ''Bearer abc123'' ?b"
  have m: "req_method ?r = ''POST''"
    and a: "authorization ?r = Some (''Bearer '' @ ''abc123'')"
    and j: "json_body ?r = Some ?b"
    by (simp_all add: post_def)
  have r: "\<not> rpc_error env_ok" by (simp add: env_ok_def)
  have l: "get_user_id_from_api_key (api_keys db0) ''abc123'' \<noteq> []"
    by (simp add: get_user_id_from_api_key_def db0_def key_old_def key_T1_def)
  have ty: "get_prop ?b ''type'' = Some (JStr ''bug'')"
    and ms: "get_prop ?b ''message'' = Some (JNum 5)"
    by (simp_all add: payload_def)
  have tv: "''bug'' \<in> set [''bug'', ''suggestion'', ''praise'', ''other'']" by simp
  have tr: "truthy (Some (JNum 5))" by simp
  have ns: "\<forall>s. JNum 5 \<noteq> JStr s" by simp
  show ?thesis
    using non_string_message_outcome [OF m a r l j ty tv ms tr ns] by simp
qed

text \<open>
  The claim as the spec words it says that every truthy non-string message passes the
  length check and ends in 500. An object with a \<^verbatim>\<open>length\<close> property of 6000 is truthy, is
  not a string, and is answered with 400.
\<close>

theorem non_string_message_too_long:
  "truthy (Some (JObj [(''length'', JNum 6000)])) \<and>
   handler env_ok db0
     (post ''Bearer abc123'' (payload ''bug'' (JObj [(''length'', JNum 6000)])))
   = (error_response 400 ''Message too long. Maximum 5000 characters.'', db0)"
  by (simp add: run_defs)

section \<open>Claims about key regeneration\<close>

text \<open>
  C4. The claim: after a regeneration exactly one key of the tenant is active, and a
  failure between the two steps never leaves the tenant without an active key for good, nor
  with two. \<^verbatim>\<open>regenerateKey\<close> runs the update and the insert as two separate calls. When
  the insert fails after the update, tenant \<open>T1\<close> has no active key; a freshly loaded page
  then finds no key (\<^verbatim>\<open>fetchApiKey\<close> leaves the state null) and \<^verbatim>\<open>regenerateKey\<close> returns at
  its guard, so nothing creates a key again. When the update fails, its unchecked result
  hides the failure, the insert goes on, and \<open>T1\<close> has two active keys.
\<close>

theorem regenerate_not_atomic:
  "regenerateKey (key_env_ok\<lparr>key_insert_error := True\<rparr>) [key_old, key_T1] (Some ''T1'') (Some key_T1)
     = ([key_old, key_T1\<lparr>ak_is_active := False\<rparr>], Some key_T1) \<and>
   active_keys [key_old, key_T1\<lparr>ak_is_active := False\<rparr>] ''T1'' = [] \<and>
   fetchApiKey [key_old, key_T1\<lparr>ak_is_active := False\<rparr>] (Some ''T1'') None = None \<and>
   regenerateKey key_env_ok [key_old, key_T1\<lparr>ak_is_active := False\<rparr>] (Some ''T1'') None
     = ([key_old, key_T1\<lparr>ak_is_active := False\<rparr>], None) \<and>
   active_keys (fst (regenerateKey (key_env_ok\<lparr>update_error := True\<rparr>) [key_old, key_T1]
                       (Some ''T1'') (Some key_T1))) ''T1''
     = [key_T1, \<lparr>ak_id = ''k2'', ak_user_id = ''T1'', ak_key = ''new789'',
                 ak_name = ''Default API Key'', ak_created_at = 2, ak_is_active = True\<rparr>]"
  by (simp add: regenerateKey_def fetchApiKey_def active_keys_def Let_def fixture_defs)

end
